theory Spec2Isabelle
  imports Complex_Main "HOL-Library.AList" "HOL-Library.Char_ord" "HOL-Library.List_Lexorder"
begin

section \<open>Python primitives used by scripts/ci/bench-compare.py\<close>

text \<open>
  Strings are byte lists; the order on strings (\<open>List_Lexorder\<close> over \<open>Char_ord\<close>) is the
  lexicographic order by character code, which is Python's \<open>str\<close> comparison (UTF-8 keeps
  the order of code points). Timings and percentages are Python floats; they are modelled
  as exact rationals, so the rounding error of one float operation is not represented,
  while every comparison, branch and exception of the script is.
\<close>

datatype error = ZeroDivisionError | ValueError | TypeError | MalformedEstimates

text \<open>\<open>os.sep\<close> on the POSIX hosts the script runs on.\<close>

definition os_sep :: char where
  "os_sep = CHR ''/''"

text \<open>\<open>s.split(sep)\<close> for a one-character separator: never empty, \<open>"".split(sep) = [""]\<close>.\<close>

fun py_split :: "char \<Rightarrow> string \<Rightarrow> string list" where
  "py_split sep [] = [[]]"
| "py_split sep (c # cs) =
     (if c = sep then [] # py_split sep cs
      else (case py_split sep cs of [] \<Rightarrow> [[c]] | p # ps \<Rightarrow> (c # p) # ps))"

text \<open>\<open>sep.join(parts)\<close>.\<close>

fun py_join :: "string \<Rightarrow> string list \<Rightarrow> string" where
  "py_join sep [] = []"
| "py_join sep [p] = p"
| "py_join sep (p # q # ps) = p @ sep @ py_join sep (q # ps)"

text \<open>\<open>xs.index(x)\<close>: the first position of \<open>x\<close>; \<open>None\<close> stands for the ValueError.\<close>

fun py_index :: "'a list \<Rightarrow> 'a \<Rightarrow> nat option" where
  "py_index [] x = None"
| "py_index (y # ys) x = (if y = x then Some 0 else map_option Suc (py_index ys x))"

text \<open>\<open>s.startswith(pre)\<close>.\<close>

definition py_startswith :: "string \<Rightarrow> string \<Rightarrow> bool" where
  "py_startswith s pre = (take (length pre) s = pre)"

text \<open>\<open>round(x, ndigits)\<close>: to the nearest multiple of \<open>10 ^ -ndigits\<close>, ties to even.\<close>

definition round_half_even :: "rat \<Rightarrow> int" where
  "round_half_even x =
     (let f = \<lfloor>x\<rfloor>; d = x - of_int f
      in if d < 1 / 2 then f else if 1 / 2 < d then f + 1 else if even f then f else f + 1)"

definition py_round :: "rat \<Rightarrow> nat \<Rightarrow> rat" where
  "py_round x ndigits = of_int (round_half_even (x * 10 ^ ndigits)) / 10 ^ ndigits"

section \<open>Baseline Loader: find_baselines\<close>

text \<open>
  A snapshot is the dict \<open>{bench_key: point_estimate}\<close>, kept as an association list with
  \<open>AList.update\<close> for \<open>results[k] = v\<close> and \<open>map_of\<close> for \<open>results.get(k)\<close>.
\<close>

type_synonym snapshot = "(string \<times> rat) list"

text \<open>
  One triple yielded by \<open>os.walk(criterion_dir)\<close>: \<open>rel\<close> is
  \<open>os.path.relpath(root, criterion_dir)\<close>, \<open>files\<close> the file names of the directory, and
  \<open>estimates\<close> the number that \<open>json.load(f)["mean"]["point_estimate"]\<close> gives for its
  estimates.json (\<open>None\<close> when the load or one of the two lookups raises).
\<close>

record walk_entry =
  rel :: string
  files :: "string list"
  estimates :: "rat option"

text \<open>The body of the loop of \<open>find_baselines\<close> (lines 32 to 47).\<close>

definition find_baselines_step :: "string \<Rightarrow> snapshot \<Rightarrow> walk_entry \<Rightarrow> error + snapshot" where
  "find_baselines_step baseline_name results e =
     (if ''estimates.json'' \<notin> set (files e) then Inr results
      else let parts = py_split os_sep (rel e) in
        if baseline_name \<notin> set parts then Inr results
        else (case py_index parts baseline_name of
            None \<Rightarrow> Inl ValueError
          | Some baseline_idx \<Rightarrow>
              let bench_key = py_join [os_sep] (take baseline_idx parts) in
              if bench_key = [] then Inr results
              else (case estimates e of
                  None \<Rightarrow> Inl MalformedEstimates
                | Some v \<Rightarrow> Inr (AList.update bench_key v results))))"

fun find_baselines_loop :: "walk_entry list \<Rightarrow> string \<Rightarrow> snapshot \<Rightarrow> error + snapshot" where
  "find_baselines_loop [] baseline_name results = Inr results"
| "find_baselines_loop (e # es) baseline_name results =
     (case find_baselines_step baseline_name results e of
        Inl err \<Rightarrow> Inl err
      | Inr results' \<Rightarrow> find_baselines_loop es baseline_name results')"

definition find_baselines :: "walk_entry list \<Rightarrow> string \<Rightarrow> error + snapshot" where
  "find_baselines walk baseline_name = find_baselines_loop walk baseline_name []"

section \<open>Subsystem Filter: is_gitr_bench\<close>

definition is_gitr_bench :: "string \<Rightarrow> bool" where
  "is_gitr_bench bench_key =
     (let parts = py_split os_sep bench_key
      in list_ex (\<lambda>p. p = ''gitr'' \<or> py_startswith p ''gitr_'' \<or> py_startswith p ''gitr/'') parts)"

text \<open>
  The predicate of claim C10, following its words: a segment passes when it equals
  \<open>gitr\<close> or starts with \<open>gitr_\<close>; there is no test for an embedded separator.
\<close>

definition is_gitr_simple :: "string \<Rightarrow> bool" where
  "is_gitr_simple bench_key =
     list_ex (\<lambda>p. p = ''gitr'' \<or> py_startswith p ''gitr_'') (py_split os_sep bench_key)"

section \<open>Comparator: lines 88 to 129 of main\<close>

datatype status = REGRESSION | IMPROVEMENT | OK | NEW | REMOVED

record result =
  benchmark :: string
  base_ns :: "rat option"
  pr_ns :: "rat option"
  pct_change :: "rat option"
  status :: status

text \<open>
  The body of the loop after the filter (lines 96 to 129). Python's \<open>/\<close> raises
  ZeroDivisionError on a zero divisor, for ints and for floats.
\<close>

definition compare_key :: "snapshot \<Rightarrow> snapshot \<Rightarrow> rat \<Rightarrow> string \<Rightarrow> error + result" where
  "compare_key base_results pr_results thr key =
     (case map_of base_results key of
        None \<Rightarrow>
          Inr \<lparr>benchmark = key, base_ns = None, pr_ns = map_of pr_results key,
               pct_change = None, status = NEW\<rparr>
      | Some b \<Rightarrow>
          (case map_of pr_results key of
             None \<Rightarrow>
               Inr \<lparr>benchmark = key, base_ns = Some b, pr_ns = None,
                    pct_change = None, status = REMOVED\<rparr>
           | Some p \<Rightarrow>
               if b = 0 then Inl ZeroDivisionError
               else
                 let pct = ((p - b) / b) * 100;
                     st = (if pct > thr then REGRESSION
                           else if pct < - thr then IMPROVEMENT
                           else OK)
                 in Inr \<lparr>benchmark = key, base_ns = Some b, pr_ns = Some p,
                         pct_change = Some (py_round pct 2), status = st\<rparr>))"

fun compare_loop ::
  "string list \<Rightarrow> snapshot \<Rightarrow> snapshot \<Rightarrow> rat \<Rightarrow> result list \<Rightarrow> error + result list" where
  "compare_loop [] base_results pr_results thr acc = Inr acc"
| "compare_loop (key # keys) base_results pr_results thr acc =
     (if \<not> is_gitr_bench key then compare_loop keys base_results pr_results thr acc
      else (case compare_key base_results pr_results thr key of
          Inl err \<Rightarrow> Inl err
        | Inr r \<Rightarrow> compare_loop keys base_results pr_results thr (acc @ [r])))"

text \<open>\<open>sorted(set(base_results.keys()) | set(pr_results.keys()))\<close>.\<close>

definition all_keys :: "snapshot \<Rightarrow> snapshot \<Rightarrow> string list" where
  "all_keys base_results pr_results = sort (remdups (map fst base_results @ map fst pr_results))"

definition compare :: "snapshot \<Rightarrow> snapshot \<Rightarrow> rat \<Rightarrow> error + result list" where
  "compare base_results pr_results thr =
     compare_loop (all_keys base_results pr_results) base_results pr_results thr []"

section \<open>Number formatting\<close>

text \<open>\<open>str(n)\<close> for an int that is not negative, and \<open>len(xs)\<close>.\<close>

definition digit_char :: "int \<Rightarrow> char" where
  "digit_char n = ''0123456789'' ! nat (n mod 10)"

function str_int :: "int \<Rightarrow> string" where
  "str_int n = (if n < 10 then [digit_char n] else str_int (n div 10) @ [digit_char n])"
  by pat_completeness auto
termination
  by (relation "measure nat") auto

declare str_int.simps [simp del]

definition py_len :: "'a list \<Rightarrow> int" where
  "py_len xs = int (length xs)"

text \<open>\<open>f"{x:.df}"\<close>: \<open>d\<close> decimals, ties to even, the sign of \<open>x\<close> kept.\<close>

definition fmt_fixed :: "nat \<Rightarrow> rat \<Rightarrow> string" where
  "fmt_fixed d x =
     (let n = round_half_even (\<bar>x\<bar> * 10 ^ d);
          ip = str_int (n div 10 ^ d);
          fp = str_int (n mod 10 ^ d)
      in (if x < 0 then ''-'' else []) @ ip @
         (if d = 0 then [] else ''.'' @ replicate (d - length fp) (CHR ''0'') @ fp))"

definition format_ns :: "rat \<Rightarrow> string" where
  "format_ns ns =
     (if ns \<ge> 1000000000 then fmt_fixed 2 (ns / 1000000000) @ ''s''
      else if ns \<ge> 1000000 then fmt_fixed 2 (ns / 1000000) @ ''ms''
      else if ns \<ge> 1000 then fmt_fixed 2 (ns / 1000) @ ''us''
      else fmt_fixed 0 ns @ ''ns'')"

text \<open>
  \<open>str(x)\<close> of a float in positional notation: the decimal expansion with at least one
  decimal. It is the text Python prints for values with a short terminating expansion
  below \<open>10 ^ 16\<close> in magnitude, which every \<open>round(pct, 2)\<close> of ordinary size is.
\<close>

fun frac_digits :: "nat \<Rightarrow> rat \<Rightarrow> string" where
  "frac_digits 0 r = []"
| "frac_digits (Suc n) r =
     (if r = 0 then []
      else let d = \<lfloor>r * 10\<rfloor> in digit_char d # frac_digits n (r * 10 - of_int d))"

definition float_repr :: "rat \<Rightarrow> string" where
  "float_repr x =
     (let a = \<bar>x\<bar>; ip = \<lfloor>a\<rfloor>; fd = frac_digits 17 (a - of_int ip)
      in (if x < 0 then ''-'' else []) @ str_int ip @ ''.'' @ (if fd = [] then ''0'' else fd))"

text \<open>\<open>f"{v}"\<close> for a value that is a float or None.\<close>

definition str_opt :: "rat option \<Rightarrow> string" where
  "str_opt v = (case v of None \<Rightarrow> ''None'' | Some x \<Rightarrow> float_repr x)"

fun status_str :: "status \<Rightarrow> string" where
  "status_str REGRESSION = ''REGRESSION''"
| "status_str IMPROVEMENT = ''IMPROVEMENT''"
| "status_str OK = ''OK''"
| "status_str NEW = ''NEW''"
| "status_str REMOVED = ''REMOVED''"

section \<open>Reporter: lines 131 to 219 of main\<close>

record json_output =
  doc_has_regression :: bool
  doc_threshold :: rat
  doc_total :: nat
  doc_regressions :: nat
  doc_improvements :: nat
  doc_results :: "result list"

datatype artifact = JsonFile json_output | TextFile string

text \<open>
  How the process ends: it falls off the end of \<open>main\<close> (status 0), calls \<open>sys.exit(n)\<close>,
  or dies of an uncaught exception (status 1).
\<close>

datatype ending = Finished | SysExit nat | Uncaught error

fun exit_status :: "ending \<Rightarrow> nat" where
  "exit_status Finished = 0"
| "exit_status (SysExit n) = n"
| "exit_status (Uncaught e) = 1"

text \<open>
  What one run leaves behind: the lines the script prints to standard error and to standard
  output, and the files it has written, in the order of the writes.
\<close>

record run =
  ending :: ending
  stderr :: "string list"
  stdout :: "string list"
  written :: "(string \<times> artifact) list"

text \<open>\<open>[f(x) for x in xs]\<close> where \<open>f\<close> may raise: the first exception wins.\<close>

fun collect :: "('a \<Rightarrow> error + 'b) \<Rightarrow> 'a list \<Rightarrow> error + 'b list" where
  "collect f [] = Inr []"
| "collect f (x # xs) =
     (case f x of
        Inl e \<Rightarrow> Inl e
      | Inr y \<Rightarrow> (case collect f xs of Inl e \<Rightarrow> Inl e | Inr ys \<Rightarrow> Inr (y # ys)))"

text \<open>\<open>format_ns(v)\<close> on a dict value: \<open>None >= 1_000_000_000\<close> is a TypeError.\<close>

definition format_ns_value :: "rat option \<Rightarrow> error + string" where
  "format_ns_value v = (case v of None \<Rightarrow> Inl TypeError | Some ns \<Rightarrow> Inr (format_ns ns))"

text \<open>The row of the regressions table (line 162): the sign is the literal \<open>+\<close>.\<close>

definition regression_row :: "result \<Rightarrow> error + string" where
  "regression_row r =
     (case format_ns_value (base_ns r) of
        Inl e \<Rightarrow> Inl e
      | Inr b \<Rightarrow>
          (case format_ns_value (pr_ns r) of
             Inl e \<Rightarrow> Inl e
           | Inr p \<Rightarrow>
               Inr (''| `'' @ benchmark r @ ''` | '' @ b @ '' | '' @ p @ '' | +'' @
                    str_opt (pct_change r) @ ''% |'')))"

text \<open>The row of the improvements table (line 173): no sign is added.\<close>

definition improvement_row :: "result \<Rightarrow> error + string" where
  "improvement_row r =
     (case format_ns_value (base_ns r) of
        Inl e \<Rightarrow> Inl e
      | Inr b \<Rightarrow>
          (case format_ns_value (pr_ns r) of
             Inl e \<Rightarrow> Inl e
           | Inr p \<Rightarrow>
               Inr (''| `'' @ benchmark r @ ''` | '' @ b @ '' | '' @ p @ '' | '' @
                    str_opt (pct_change r) @ ''% |'')))"

text \<open>The change cell of the full table (lines 196 to 200).\<close>

definition change_str :: "result \<Rightarrow> string" where
  "change_str r =
     (case pct_change r of
        Some v \<Rightarrow> (let sign = (if v > 0 then ''+'' else []) in sign @ float_repr v @ ''%'')
      | None \<Rightarrow> status_str (status r))"

text \<open>The row of the full table (lines 194 to 203).\<close>

definition all_results_row :: "result \<Rightarrow> string" where
  "all_results_row r =
     (let base_str = (case base_ns r of Some b \<Rightarrow> format_ns b | None \<Rightarrow> ''-'');
          pr_str = (case pr_ns r of Some p \<Rightarrow> format_ns p | None \<Rightarrow> ''-'')
      in ''| `'' @ benchmark r @ ''` | '' @ base_str @ '' | '' @ pr_str @ '' | '' @
         change_str r @ '' | '' @ status_str (status r) @ '' |'')"

text \<open>The console line of one regression (line 219): the sign is the literal \<open>+\<close>.\<close>

definition console_line :: "result \<Rightarrow> string" where
  "console_line r = ''  '' @ benchmark r @ '': +'' @ str_opt (pct_change r) @ ''%''"

definition table_head :: "string list" where
  "table_head = [''| Benchmark | Base | PR | Change |'', ''|-----------|------|-----|--------|'']"

definition names_line :: "string \<Rightarrow> result list \<Rightarrow> string list" where
  "names_line title rs =
     (if rs = [] then []
      else [title @ py_join '', '' (map (\<lambda>r. ''`'' @ benchmark r @ ''`'') rs), []])"

text \<open>The lines of bench-results.md (lines 148 to 206).\<close>

definition md_lines :: "rat \<Rightarrow> result list \<Rightarrow> error + string list" where
  "md_lines thr rs =
     (let regs = filter (\<lambda>r. status r = REGRESSION) rs;
          imps = filter (\<lambda>r. status r = IMPROVEMENT) rs;
          status_emoji = (if length regs > 0 then ''FAIL'' else ''PASS'');
          head =
            [''## Benchmark Results'',
             ''**Threshold**: '' @ float_repr thr @ ''% | **Status**: '' @ status_emoji,
             ''### Summary: '' @ str_int (py_len rs) @ '' benchmarks, '' @
               str_int (py_len regs) @ '' regressions, '' @
               str_int (py_len imps) @ '' improvements'',
             []];
          news = names_line ''**New benchmarks**: '' (filter (\<lambda>r. status r = NEW) rs);
          gone = names_line ''**Removed benchmarks**: '' (filter (\<lambda>r. status r = REMOVED) rs);
          full =
            [''<details>'', ''<summary>All Results</summary>'', [],
             ''| Benchmark | Base | PR | Change | Status |'',
             ''|-----------|------|-----|--------|--------|''] @
            map all_results_row rs @ [[], ''</details>'', []]
      in case (if regs = [] then Inr [] else collect regression_row regs) of
           Inl e \<Rightarrow> Inl e
         | Inr reg_rows \<Rightarrow>
             (case (if imps = [] then Inr [] else collect improvement_row imps) of
                Inl e \<Rightarrow> Inl e
              | Inr imp_rows \<Rightarrow>
                  Inr (head @
                       (if regs = [] then []
                        else [''### Regressions'', []] @ table_head @ reg_rows @ [[]]) @
                       (if imps = [] then []
                        else [''### Improvements'', []] @ table_head @ imp_rows @ [[]]) @
                       news @ gone @ full)))"

text \<open>The summary printed to standard output (lines 213 to 219).\<close>

definition console_summary :: "rat \<Rightarrow> result list \<Rightarrow> string list" where
  "console_summary thr rs =
     (let regs = filter (\<lambda>r. status r = REGRESSION) rs;
          imps = filter (\<lambda>r. status r = IMPROVEMENT) rs
      in [''Compared '' @ str_int (py_len rs) @ '' gitr benchmarks (threshold: '' @
            float_repr thr @ ''%)'',
          ''  Regressions:  '' @ str_int (py_len regs),
          ''  Improvements: '' @ str_int (py_len imps)] @
         (if regs = [] then [] else [[], ''Regressed benchmarks:''] @ map console_line regs))"

definition report :: "rat \<Rightarrow> result list \<Rightarrow> run" where
  "report thr rs =
     (let regs = filter (\<lambda>r. status r = REGRESSION) rs;
          imps = filter (\<lambda>r. status r = IMPROVEMENT) rs;
          json_file =
            (''bench-results.json'',
             JsonFile \<lparr>doc_has_regression = (length regs > 0), doc_threshold = thr,
                       doc_total = length rs, doc_regressions = length regs,
                       doc_improvements = length imps, doc_results = rs\<rparr>)
      in case md_lines thr rs of
           Inl e \<Rightarrow> \<lparr>ending = Uncaught e, stderr = [], stdout = [], written = [json_file]\<rparr>
         | Inr lines \<Rightarrow>
             \<lparr>ending = Finished, stderr = [], stdout = console_summary thr rs,
              written = [json_file, (''bench-results.md'', TextFile (py_join [CHR 0x0A] lines))]\<rparr>)"

section \<open>main\<close>

record args =
  base :: string
  pr :: string
  threshold :: rat
  criterion_dir :: string

text \<open>
  \<open>walk\<close> is what \<open>os.walk(args.criterion_dir)\<close> yields, the same at both calls of
  \<open>find_baselines\<close>, and empty when the directory does not exist.
\<close>

definition missing_baseline :: "string \<Rightarrow> string \<Rightarrow> string \<Rightarrow> run" where
  "missing_baseline which name dir =
     \<lparr>ending = SysExit 1,
      stderr = [''ERROR: No '' @ which @ '' baseline '' @ [CHR 0x27] @ name @ [CHR 0x27] @
                '' found in '' @ dir],
      stdout = [], written = []\<rparr>"

definition uncaught :: "error \<Rightarrow> run" where
  "uncaught e = \<lparr>ending = Uncaught e, stderr = [], stdout = [], written = []\<rparr>"

definition main :: "args \<Rightarrow> walk_entry list \<Rightarrow> run" where
  "main a walk =
     (case find_baselines walk (base a) of
        Inl e \<Rightarrow> uncaught e
      | Inr base_results \<Rightarrow>
          (case find_baselines walk (pr a) of
             Inl e \<Rightarrow> uncaught e
           | Inr pr_results \<Rightarrow>
               if base_results = [] then missing_baseline ''base'' (base a) (criterion_dir a)
               else if pr_results = [] then missing_baseline ''PR'' (pr a) (criterion_dir a)
               else (case compare base_results pr_results (threshold a) of
                   Inl e \<Rightarrow> uncaught e
                 | Inr rs \<Rightarrow> report (threshold a) rs)))"

section \<open>Facts about the string primitives\<close>

lemma py_split_not_Nil: "py_split sep s \<noteq> []"
  by (induction s) (auto split: list.splits)

lemma py_split_no_sep: "p \<in> set (py_split sep s) \<Longrightarrow> sep \<notin> set p"
proof (induction s arbitrary: p)
  case Nil
  then show ?case by simp
next
  case (Cons c cs)
  show ?case
  proof (cases "c = sep")
    case True
    with Cons show ?thesis by auto
  next
    case False
    obtain q qs where q: "py_split sep cs = q # qs"
      using py_split_not_Nil [of sep cs] by (cases "py_split sep cs") auto
    with Cons.prems False have "p = c # q \<or> p \<in> set qs" by auto
    then show ?thesis
      using Cons.IH q False by auto
  qed
qed




lemma py_index_split:
  "x \<notin> set pre \<Longrightarrow> py_index (pre @ x # post) x = Some (length pre)"
  by (induction pre) auto

lemma py_index_member: "x \<in> set xs \<Longrightarrow> \<exists>i. py_index xs x = Some i \<and> i < length xs"
  by (induction xs) auto


lemma py_startswith_iff: "py_startswith s pre \<longleftrightarrow> (\<exists>t. s = pre @ t)"
  unfolding py_startswith_def
  by (metis append_eq_conv_conj append_take_drop_id)

section \<open>The Baseline Loader\<close>

lemma find_baselines_step_no_data:
  "''estimates.json'' \<notin> set (files e) \<Longrightarrow> find_baselines_step name results e = Inr results"
  by (simp add: find_baselines_step_def)

lemma find_baselines_step_found:
  assumes data: "''estimates.json'' \<in> set (files e)"
    and parts: "py_split os_sep (rel e) = pre @ name # post"
    and first: "name \<notin> set pre"
  shows "find_baselines_step name results e =
     (if py_join [os_sep] pre = [] then Inr results
      else case estimates e of
          None \<Rightarrow> Inl MalformedEstimates
        | Some v \<Rightarrow> Inr (AList.update (py_join [os_sep] pre) v results))"
  using data first
  by (simp add: find_baselines_step_def parts py_index_split Let_def)



lemma find_baselines_step_cases:
  assumes "find_baselines_step name results e = Inr results'"
  shows "results' = results \<or>
    (\<exists>pre post v. py_split os_sep (rel e) = pre @ name # post \<and> name \<notin> set pre \<and>
       py_join [os_sep] pre \<noteq> [] \<and> estimates e = Some v \<and>
       results' = AList.update (py_join [os_sep] pre) v results)"
proof (cases "''estimates.json'' \<in> set (files e) \<and> name \<in> set (py_split os_sep (rel e))")
  case False
  with assms show ?thesis
    by (auto simp: find_baselines_step_def Let_def split: if_splits)
next
  case True
  then obtain pre post where parts: "py_split os_sep (rel e) = pre @ name # post"
    and first: "name \<notin> set pre"
    by (meson split_list_first)
  from True have data: "''estimates.json'' \<in> set (files e)" by simp
  show ?thesis
    using assms parts first
    unfolding find_baselines_step_found [OF data parts first]
    by (auto split: if_splits option.splits)
qed

text \<open>Every key of a loaded snapshot is the non-empty identity of some directory of the walk.\<close>

lemma find_baselines_loop_keys:
  assumes "find_baselines_loop walk name acc = Inr snap" and "key \<in> fst ` set snap"
  shows "key \<in> fst ` set acc \<or>
    (\<exists>e\<in>set walk. \<exists>pre post. py_split os_sep (rel e) = pre @ name # post \<and>
       name \<notin> set pre \<and> key = py_join [os_sep] pre \<and> key \<noteq> [])"
  using assms
proof (induction walk arbitrary: acc)
  case Nil
  then show ?case by simp
next
  case (Cons e es)
  from Cons.prems(1) obtain acc' where
    step: "find_baselines_step name acc e = Inr acc'" and
    rest: "find_baselines_loop es name acc' = Inr snap"
    by (auto split: sum.splits)
  from Cons.IH [OF rest Cons.prems(2)]
  show ?case
  proof
    assume k: "key \<in> fst ` set acc'"
    from find_baselines_step_cases [OF step] show ?thesis
    proof
      assume "acc' = acc"
      with k show ?thesis by simp
    next
      assume "\<exists>pre post v. py_split os_sep (rel e) = pre @ name # post \<and> name \<notin> set pre \<and>
        py_join [os_sep] pre \<noteq> [] \<and> estimates e = Some v \<and>
        acc' = AList.update (py_join [os_sep] pre) v acc"
      then obtain pre post v where
        p: "py_split os_sep (rel e) = pre @ name # post" "name \<notin> set pre"
           "py_join [os_sep] pre \<noteq> []" and
        a: "acc' = AList.update (py_join [os_sep] pre) v acc"
        by blast
      from k a have "key = py_join [os_sep] pre \<or> key \<in> fst ` set acc"
        by (auto simp: dom_update)
      with p show ?thesis by auto
    qed
  next
    assume "\<exists>e\<in>set es. \<exists>pre post. py_split os_sep (rel e) = pre @ name # post \<and>
       name \<notin> set pre \<and> key = py_join [os_sep] pre \<and> key \<noteq> []"
    then show ?thesis by auto
  qed
qed

lemma find_baselines_keys:
  assumes "find_baselines walk name = Inr snap" and "key \<in> fst ` set snap"
  shows "\<exists>e\<in>set walk. \<exists>pre post. py_split os_sep (rel e) = pre @ name # post \<and>
       name \<notin> set pre \<and> key = py_join [os_sep] pre \<and> key \<noteq> []"
  using find_baselines_loop_keys [of walk name "[]" snap key] assms
  by (simp add: find_baselines_def)

section \<open>The Subsystem Filter\<close>

lemma is_gitr_bench_Bex:
  "is_gitr_bench key \<longleftrightarrow>
     (\<exists>p\<in>set (py_split os_sep key).
        p = ''gitr'' \<or> py_startswith p ''gitr_'' \<or> py_startswith p ''gitr/'')"
  by (simp add: is_gitr_bench_def list_ex_iff)

text \<open>
  Claim C4. The filter holds of a key exactly when one of its segments is \<open>gitr\<close>, or is
  \<open>gitr_\<close> followed by any text, or is \<open>gitr/\<close> followed by any text; the match is
  case-sensitive and a segment that merely contains the marker (\<open>gitrX\<close>, \<open>ungitr\<close>)
  does not pass.
\<close>

theorem is_gitr_bench_segments:
  "(is_gitr_bench key \<longleftrightarrow>
      (\<exists>p\<in>set (py_split os_sep key).
         p = ''gitr'' \<or> (\<exists>t. p = ''gitr_'' @ t) \<or> (\<exists>t. p = ''gitr/'' @ t))) \<and>
   is_gitr_bench ''status/gitr/small'' \<and>
   is_gitr_bench ''init/gitr'' \<and>
   is_gitr_bench ''cat-file/gitr_-p/small'' \<and>
   \<not> is_gitr_bench ''status/gitrX/small'' \<and>
   \<not> is_gitr_bench ''status/ungitr/small'' \<and>
   \<not> is_gitr_bench ''status/Gitr/small'' \<and>
   \<not> is_gitr_bench ''status/GITR_x/small'' \<and>
   \<not> is_gitr_bench ''status/git/small''"
proof (intro conjI)
  show "is_gitr_bench key \<longleftrightarrow>
      (\<exists>p\<in>set (py_split os_sep key).
         p = ''gitr'' \<or> (\<exists>t. p = ''gitr_'' @ t) \<or> (\<exists>t. p = ''gitr/'' @ t))"
    unfolding is_gitr_bench_Bex py_startswith_iff ..
qed (simp_all add: is_gitr_bench_def os_sep_def py_startswith_def)

lemma segment_never_gitr_slash:
  "p \<in> set (py_split os_sep key) \<Longrightarrow> \<not> py_startswith p ''gitr/''"
proof
  assume p: "p \<in> set (py_split os_sep key)" and "py_startswith p ''gitr/''"
  then obtain t where "p = ''gitr/'' @ t"
    by (auto simp: py_startswith_iff)
  then have "os_sep \<in> set p" by (simp add: os_sep_def)
  with py_split_no_sep [OF p] show False by simp
qed

lemma is_gitr_bench_simple: "is_gitr_bench key = is_gitr_simple key"
  unfolding is_gitr_bench_Bex is_gitr_simple_def list_ex_iff
  using segment_never_gitr_slash by blast

text \<open>
  Claim C10. For a key of a snapshot the loader returns: no segment of the key holds the
  separator, so no segment starts with \<open>gitr/\<close>, and the filter agrees with the simpler
  predicate.
\<close>

theorem is_gitr_bench_on_loaded_keys:
  assumes "find_baselines walk name = Inr snap" and "key \<in> fst ` set snap"
  shows "(\<forall>p\<in>set (py_split os_sep key). os_sep \<notin> set p \<and> \<not> py_startswith p ''gitr/'') \<and>
         is_gitr_bench key = is_gitr_simple key"
  using assms
  by (simp add: py_split_no_sep segment_never_gitr_slash is_gitr_bench_simple)

theorem is_gitr_bench_on_loaded_keys_witness:
  "find_baselines
     [\<lparr>rel = ''cat-file/gitr_-p/small/main'', files = [''estimates.json''], estimates = Some 5\<rparr>]
     ''main'' = Inr [(''cat-file/gitr_-p/small'', 5)] \<and>
   py_split os_sep ''cat-file/gitr_-p/small'' = [''cat-file'', ''gitr_-p'', ''small''] \<and>
   is_gitr_bench ''cat-file/gitr_-p/small'' = is_gitr_simple ''cat-file/gitr_-p/small'' \<and>
   is_gitr_simple ''cat-file/gitr_-p/small''"
proof -
  have l: "find_baselines
     [\<lparr>rel = ''cat-file/gitr_-p/small/main'', files = [''estimates.json''], estimates = Some 5\<rparr>]
     ''main'' = Inr [(''cat-file/gitr_-p/small'', 5)]"
    by (simp add: find_baselines_def find_baselines_step_def os_sep_def)
  have k: "''cat-file/gitr_-p/small'' \<in> fst ` set [(''cat-file/gitr_-p/small'', 5::rat)]"
    by simp
  from is_gitr_bench_on_loaded_keys [OF l k]
  have "is_gitr_bench ''cat-file/gitr_-p/small'' = is_gitr_simple ''cat-file/gitr_-p/small''"
    by simp
  moreover have "py_split os_sep ''cat-file/gitr_-p/small'' = [''cat-file'', ''gitr_-p'', ''small'']"
    by (simp add: os_sep_def)
  moreover have "is_gitr_simple ''cat-file/gitr_-p/small''"
    by (simp add: is_gitr_simple_def os_sep_def py_startswith_def)
  ultimately show ?thesis using l by simp
qed

section \<open>The Comparator\<close>




lemma all_keys_set: "set (all_keys b p) = fst ` set b \<union> fst ` set p"
  by (simp add: all_keys_def)

lemma all_keys_sorted: "sorted (all_keys b p)"
  by (simp add: all_keys_def)

lemma all_keys_distinct: "distinct (all_keys b p)"
  by (simp add: all_keys_def)

lemma compare_key_benchmark: "compare_key b p t key = Inr r \<Longrightarrow> benchmark r = key"
  by (auto simp: compare_key_def Let_def split: option.splits if_splits)

lemma compare_key_Inl:
  "compare_key b p t key = Inl e \<longleftrightarrow>
     e = ZeroDivisionError \<and> map_of b key = Some 0 \<and> map_of p key \<noteq> None"
  by (auto simp: compare_key_def Let_def split: option.splits)

lemma compare_loop_Inr:
  "compare_loop keys b p t acc = Inr rs \<Longrightarrow>
     \<exists>new. rs = acc @ new \<and> map benchmark new = filter is_gitr_bench keys \<and>
       (\<forall>r\<in>set new. compare_key b p t (benchmark r) = Inr r)"
proof (induction keys arbitrary: acc)
  case Nil
  then show ?case by simp
next
  case (Cons key keys)
  show ?case
  proof (cases "is_gitr_bench key")
    case False
    with Cons.prems have "compare_loop keys b p t acc = Inr rs" by simp
    from Cons.IH [OF this] False show ?thesis by simp
  next
    case True
    with Cons.prems obtain r where
      r: "compare_key b p t key = Inr r" and
      rest: "compare_loop keys b p t (acc @ [r]) = Inr rs"
      by (auto split: sum.splits)
    from Cons.IH [OF rest] obtain new where
      new: "rs = (acc @ [r]) @ new" "map benchmark new = filter is_gitr_bench keys"
        "\<forall>x\<in>set new. compare_key b p t (benchmark x) = Inr x"
      by blast
    have "rs = acc @ (r # new)" using new(1) by simp
    moreover have "map benchmark (r # new) = filter is_gitr_bench (key # keys)"
      using True new(2) compare_key_benchmark [OF r] by simp
    moreover have "\<forall>x\<in>set (r # new). compare_key b p t (benchmark x) = Inr x"
      using new(3) r compare_key_benchmark [OF r] by simp
    ultimately show ?thesis by blast
  qed
qed

lemma compare_loop_Inl:
  "compare_loop keys b p t acc = Inl e \<longleftrightarrow>
     (\<exists>k\<in>set keys. is_gitr_bench k \<and> compare_key b p t k = Inl e)"
proof (induction keys arbitrary: acc)
  case Nil
  then show ?case by simp
next
  case (Cons key keys)
  show ?case
  proof (cases "is_gitr_bench key")
    case False
    then show ?thesis using Cons.IH [of acc] by auto
  next
    case True
    show ?thesis
    proof (cases "compare_key b p t key")
      case (Inl e')
      then have e': "e' = ZeroDivisionError" by (simp add: compare_key_Inl)
      have "compare_loop (key # keys) b p t acc = Inl e'" using True Inl by simp
      moreover have "\<And>k. compare_key b p t k = Inl e \<Longrightarrow> e = ZeroDivisionError"
        by (simp add: compare_key_Inl)
      ultimately show ?thesis using True Inl e' by auto
    next
      case (Inr r)
      then show ?thesis using True Cons.IH [of "acc @ [r]"] by auto
    qed
  qed
qed

lemma compare_Inr:
  assumes "compare b p t = Inr rs"
  shows "map benchmark rs = filter is_gitr_bench (all_keys b p)"
    and "\<forall>r\<in>set rs. compare_key b p t (benchmark r) = Inr r"
  using compare_loop_Inr [of "all_keys b p" b p t "[]" rs] assms
  by (auto simp: compare_def)

lemma compare_Inl:
  "compare b p t = Inl e \<longleftrightarrow>
     e = ZeroDivisionError \<and>
     (\<exists>k. is_gitr_bench k \<and> map_of b k = Some 0 \<and> map_of p k \<noteq> None)"
proof -
  have "\<And>k. map_of b k = Some 0 \<Longrightarrow> k \<in> fst ` set b"
    by (metis map_of_eq_None_iff option.distinct(1))
  then show ?thesis
    unfolding compare_def compare_loop_Inl compare_key_Inl all_keys_set by blast
qed

lemma compare_keys_sorted:
  assumes "compare b p t = Inr rs"
  shows "sorted (map benchmark rs)" and "distinct (map benchmark rs)"
    and "set (map benchmark rs) = {k \<in> fst ` set b \<union> fst ` set p. is_gitr_bench k}"
proof -
  note k = compare_Inr(1) [OF assms]
  show "sorted (map benchmark rs)"
    unfolding k using all_keys_sorted [of b p] by (rule sorted_wrt_filter)
  show "distinct (map benchmark rs)"
    unfolding k using all_keys_distinct [of b p] by simp
  show "set (map benchmark rs) = {k \<in> fst ` set b \<union> fst ` set p. is_gitr_bench k}"
    unfolding k by (auto simp: all_keys_set)
qed

lemma compare_key_both:
  "map_of b key = Some bv \<Longrightarrow> map_of p key = Some pv \<Longrightarrow> bv \<noteq> 0 \<Longrightarrow>
   compare_key b p t key =
     Inr \<lparr>benchmark = key, base_ns = Some bv, pr_ns = Some pv,
          pct_change = Some (py_round ((pv - bv) / bv * 100) 2),
          status = (if (pv - bv) / bv * 100 > t then REGRESSION
                    else if (pv - bv) / bv * 100 < - t then IMPROVEMENT else OK)\<rparr>"
  by (simp add: compare_key_def Let_def)




lemma compare_key_fields:
  assumes "compare_key b p t key = Inr r"
  shows "base_ns r = map_of b key \<and> pr_ns r = map_of p key \<and>
    (status r = NEW \<longleftrightarrow> map_of b key = None) \<and>
    (status r = REMOVED \<longleftrightarrow> map_of b key \<noteq> None \<and> map_of p key = None) \<and>
    (status r \<in> {REGRESSION, IMPROVEMENT, OK} \<longleftrightarrow> map_of b key \<noteq> None \<and> map_of p key \<noteq> None) \<and>
    (pct_change r \<noteq> None \<longleftrightarrow> map_of b key \<noteq> None \<and> map_of p key \<noteq> None)"
  using assms
  by (auto simp: compare_key_def Let_def split: option.splits if_splits)

text \<open>
  Claim C2, as the code has it. When the comparison completes, the results name each
  identity of the union that passes the filter exactly once and no other identity; each
  result carries the two timings of its identity, at least one of them present; it is NEW
  iff the base timing is absent, REMOVED iff the candidate timing is absent, one of
  REGRESSION, IMPROVEMENT and OK iff both are present; and pct_change is present iff both
  timings are.
\<close>

theorem compare_classification_total:
  assumes "compare b p t = Inr rs"
  shows "distinct (map benchmark rs) \<and>
    set (map benchmark rs) = {k \<in> fst ` set b \<union> fst ` set p. is_gitr_bench k} \<and>
    (\<forall>r\<in>set rs.
       base_ns r = map_of b (benchmark r) \<and> pr_ns r = map_of p (benchmark r) \<and>
       \<not> (base_ns r = None \<and> pr_ns r = None) \<and>
       (status r = NEW \<longleftrightarrow> base_ns r = None) \<and>
       (status r = REMOVED \<longleftrightarrow> pr_ns r = None) \<and>
       (status r \<in> {REGRESSION, IMPROVEMENT, OK} \<longleftrightarrow> base_ns r \<noteq> None \<and> pr_ns r \<noteq> None) \<and>
       (pct_change r \<noteq> None \<longleftrightarrow> base_ns r \<noteq> None \<and> pr_ns r \<noteq> None))"
proof (intro conjI ballI)
  show "distinct (map benchmark rs)"
    by (rule compare_keys_sorted(2) [OF assms])
  show keys: "set (map benchmark rs) = {k \<in> fst ` set b \<union> fst ` set p. is_gitr_bench k}"
    by (rule compare_keys_sorted(3) [OF assms])
  fix r
  assume r: "r \<in> set rs"
  then have ck: "compare_key b p t (benchmark r) = Inr r"
    using compare_Inr(2) [OF assms] by simp
  from r have "benchmark r \<in> set (map benchmark rs)" by simp
  then have "benchmark r \<in> fst ` set b \<or> benchmark r \<in> fst ` set p"
    unfolding keys by simp
  then have present: "map_of b (benchmark r) \<noteq> None \<or> map_of p (benchmark r) \<noteq> None"
    by (simp add: map_of_eq_None_iff)
  note f = compare_key_fields [OF ck]
  show "base_ns r = map_of b (benchmark r)" and "pr_ns r = map_of p (benchmark r)"
    using f by simp_all
  show "\<not> (base_ns r = None \<and> pr_ns r = None)"
    using f present by simp
  show "status r = NEW \<longleftrightarrow> base_ns r = None"
    using f by simp
  show "status r = REMOVED \<longleftrightarrow> pr_ns r = None"
    using f present by auto
  show "status r \<in> {REGRESSION, IMPROVEMENT, OK} \<longleftrightarrow> base_ns r \<noteq> None \<and> pr_ns r \<noteq> None"
    using f by simp
  show "pct_change r \<noteq> None \<longleftrightarrow> base_ns r \<noteq> None \<and> pr_ns r \<noteq> None"
    using f by simp
qed

theorem compare_classification_total_witness:
  "compare [(''status/gitr'', 100), (''init/gitr'', 200), (''status/git'', 90)]
           [(''status/gitr'', 106), (''new/gitr'', 50), (''status/git'', 91)] 5 =
     Inr [\<lparr>benchmark = ''init/gitr'', base_ns = Some 200, pr_ns = None,
            pct_change = None, status = REMOVED\<rparr>,
          \<lparr>benchmark = ''new/gitr'', base_ns = None, pr_ns = Some 50,
            pct_change = None, status = NEW\<rparr>,
          \<lparr>benchmark = ''status/gitr'', base_ns = Some 100, pr_ns = Some 106,
            pct_change = Some 6, status = REGRESSION\<rparr>] \<and>
   {k \<in> fst ` set [(''status/gitr'', 100::rat), (''init/gitr'', 200), (''status/git'', 90)] \<union>
         fst ` set [(''status/gitr'', 106::rat), (''new/gitr'', 50), (''status/git'', 91)].
      is_gitr_bench k} = {''init/gitr'', ''new/gitr'', ''status/gitr''}"
proof -
  let ?b = "[(''status/gitr'', 100), (''init/gitr'', 200), (''status/git'', 90)] :: snapshot"
  let ?p = "[(''status/gitr'', 106), (''new/gitr'', 50), (''status/git'', 91)] :: snapshot"
  let ?rs = "[\<lparr>benchmark = ''init/gitr'', base_ns = Some 200, pr_ns = None,
            pct_change = None, status = REMOVED\<rparr>,
          \<lparr>benchmark = ''new/gitr'', base_ns = None, pr_ns = Some 50,
            pct_change = None, status = NEW\<rparr>,
          \<lparr>benchmark = ''status/gitr'', base_ns = Some 100, pr_ns = Some 106,
            pct_change = Some 6, status = REGRESSION\<rparr>]"
  have run: "compare ?b ?p 5 = Inr ?rs" by code_simp
  from compare_classification_total [OF run]
  have "set (map benchmark ?rs) = {k \<in> fst ` set ?b \<union> fst ` set ?p. is_gitr_bench k}"
    by (rule conjunct1 [OF conjunct2])
  then have "{k \<in> fst ` set ?b \<union> fst ` set ?p. is_gitr_bench k} =
      {''init/gitr'', ''new/gitr'', ''status/gitr''}"
    by simp
  with run show ?thesis by (rule conjI)
qed

text \<open>
  The claim as stated fails on a pair of snapshots whose comparison does not complete:
  status/gitr is in the union and passes the filter, and no result is produced for it.
\<close>

theorem compare_no_result_counterexample:
  "is_gitr_bench ''status/gitr'' \<and>
   ''status/gitr'' \<in> fst ` set [(''status/gitr'', 0::rat)] \<and>
   compare [(''status/gitr'', 0)] [(''status/gitr'', 1)] 5 = Inl ZeroDivisionError"
  by code_simp




text \<open>
  Claim C7, as the code has it. An identity that passes the filter, is present in both
  snapshots and has a base timing of zero makes the comparison raise ZeroDivisionError:
  there are no results, and \<open>main\<close> ends on the uncaught exception, with status 1 and no
  file written.
\<close>

theorem compare_zero_base_raises:
  assumes "is_gitr_bench key" and "map_of b key = Some 0" and "map_of p key = Some pv"
  shows "compare b p t = Inl ZeroDivisionError \<and>
    (\<forall>a walk. find_baselines walk (base a) = Inr b \<and> find_baselines walk (pr a) = Inr p \<and>
        threshold a = t \<longrightarrow>
        main a walk = \<lparr>ending = Uncaught ZeroDivisionError, stderr = [], stdout = [], written = []\<rparr> \<and>
        exit_status (ending (main a walk)) = 1)"
proof -
  have c: "compare b p t = Inl ZeroDivisionError"
    unfolding compare_Inl using assms by auto
  have "b \<noteq> []" "p \<noteq> []"
    using assms by auto
  then show ?thesis
    using c by (auto simp: main_def uncaught_def)
qed

theorem compare_zero_base_raises_witness:
  "is_gitr_bench ''status/gitr'' \<and>
   map_of [(''status/gitr'', 0::rat)] ''status/gitr'' = Some 0 \<and>
   map_of [(''status/gitr'', 1::rat)] ''status/gitr'' = Some 1 \<and>
   compare [(''status/gitr'', 0)] [(''status/gitr'', 1)] 5 = Inl ZeroDivisionError \<and>
   main \<lparr>base = ''main'', pr = ''pr'', threshold = 5, criterion_dir = ''target/criterion''\<rparr>
     [\<lparr>rel = ''status/gitr/main'', files = [''estimates.json''], estimates = Some 0\<rparr>,
      \<lparr>rel = ''status/gitr/pr'', files = [''estimates.json''], estimates = Some 1\<rparr>] =
     \<lparr>ending = Uncaught ZeroDivisionError, stderr = [], stdout = [], written = []\<rparr>"
proof -
  let ?a = "\<lparr>base = ''main'', pr = ''pr'', threshold = 5, criterion_dir = ''target/criterion''\<rparr>"
  let ?walk = "[\<lparr>rel = ''status/gitr/main'', files = [''estimates.json''], estimates = Some 0\<rparr>,
      \<lparr>rel = ''status/gitr/pr'', files = [''estimates.json''], estimates = Some 1\<rparr>]"
  have g: "is_gitr_bench ''status/gitr''" by code_simp
  have b: "map_of [(''status/gitr'', 0::rat)] ''status/gitr'' = Some 0" by simp
  have p: "map_of [(''status/gitr'', 1::rat)] ''status/gitr'' = Some 1" by simp
  have lb: "find_baselines ?walk (base ?a) = Inr [(''status/gitr'', 0)]" by code_simp
  have lp: "find_baselines ?walk (pr ?a) = Inr [(''status/gitr'', 1)]" by code_simp
  have th: "threshold ?a = 5" by simp
  note t = compare_zero_base_raises [OF g b p, of 5]
  from t have c: "compare [(''status/gitr'', 0)] [(''status/gitr'', 1)] 5 = Inl ZeroDivisionError"
    by (rule conjunct1)
  from t [THEN conjunct2] lb lp th
  have "main ?a ?walk =
      \<lparr>ending = Uncaught ZeroDivisionError, stderr = [], stdout = [], written = []\<rparr>"
    by blast
  with g b p c show ?thesis by blast
qed

text \<open>
  The claim as stated fails for an identity that does not pass the filter: status/git has
  a base timing of zero in both snapshots and the comparison completes.
\<close>

theorem compare_zero_base_unfiltered_counterexample:
  "map_of [(''status/git'', 0::rat), (''status/gitr'', 4)] ''status/git'' = Some 0 \<and>
   map_of [(''status/git'', 5::rat), (''status/gitr'', 4)] ''status/git'' = Some 5 \<and>
   compare [(''status/git'', 0), (''status/gitr'', 4)] [(''status/git'', 5), (''status/gitr'', 4)] 5 =
     Inr [\<lparr>benchmark = ''status/gitr'', base_ns = Some 4, pr_ns = Some 4,
            pct_change = Some 0, status = OK\<rparr>]"
  by code_simp

section \<open>main: loading failures and the empty report\<close>

lemma compare_loop_none:
  "\<forall>k\<in>set keys. \<not> is_gitr_bench k \<Longrightarrow> compare_loop keys b p t acc = Inr acc"
  by (induction keys) auto

lemma md_lines_Nil: "\<exists>lines. md_lines thr [] = Inr lines"
  by (simp add: md_lines_def names_line_def)

lemma report_Nil:
  "ending (report thr []) = Finished \<and> stderr (report thr []) = [] \<and>
   map fst (written (report thr [])) = [''bench-results.json'', ''bench-results.md''] \<and>
   map_of (written (report thr [])) ''bench-results.json'' =
     Some (JsonFile \<lparr>doc_has_regression = False, doc_threshold = thr, doc_total = 0,
                      doc_regressions = 0, doc_improvements = 0, doc_results = []\<rparr>)"
proof -
  obtain lines where "md_lines thr [] = Inr lines"
    using md_lines_Nil by blast
  then show ?thesis by (simp add: report_def)
qed




text \<open>
  Claim C9. When both snapshots are non-empty and no key of either passes the filter,
  \<open>main\<close> runs to its end with exit status 0 and nothing on standard error, writes
  bench-results.json and then bench-results.md, and the JSON document has total 0,
  regressions 0, improvements 0, no results and has_regression false.
\<close>

theorem main_no_gitr_benchmark:
  assumes "find_baselines walk (base a) = Inr b" and "find_baselines walk (pr a) = Inr p"
    and "b \<noteq> []" and "p \<noteq> []"
    and "\<forall>k\<in>fst ` set b \<union> fst ` set p. \<not> is_gitr_bench k"
  shows "ending (main a walk) = Finished \<and> exit_status (ending (main a walk)) = 0 \<and>
    stderr (main a walk) = [] \<and>
    map fst (written (main a walk)) = [''bench-results.json'', ''bench-results.md''] \<and>
    map_of (written (main a walk)) ''bench-results.json'' =
      Some (JsonFile \<lparr>doc_has_regression = False, doc_threshold = threshold a, doc_total = 0,
                       doc_regressions = 0, doc_improvements = 0, doc_results = []\<rparr>)"
proof -
  have "\<forall>k\<in>set (all_keys b p). \<not> is_gitr_bench k"
    using assms(5) by (simp add: all_keys_set)
  then have "compare b p (threshold a) = Inr []"
    unfolding compare_def by (rule compare_loop_none)
  then have "main a walk = report (threshold a) []"
    using assms(1-4) by (simp add: main_def)
  then show ?thesis
    using report_Nil [of "threshold a"] by simp
qed

theorem main_no_gitr_benchmark_witness:
  "main \<lparr>base = ''main'', pr = ''pr'', threshold = 5, criterion_dir = ''target/criterion''\<rparr>
     [\<lparr>rel = ''status/git/main'', files = [''estimates.json''], estimates = Some 7\<rparr>,
      \<lparr>rel = ''status/git/pr'', files = [''estimates.json''], estimates = Some 8\<rparr>] =
     report 5 [] \<and>
   ending (report 5 []) = Finished \<and>
   map_of (written (report 5 [])) ''bench-results.json'' =
      Some (JsonFile \<lparr>doc_has_regression = False, doc_threshold = 5, doc_total = 0,
                       doc_regressions = 0, doc_improvements = 0, doc_results = []\<rparr>)"
proof -
  let ?a = "\<lparr>base = ''main'', pr = ''pr'', threshold = 5, criterion_dir = ''target/criterion''\<rparr>"
  let ?walk = "[\<lparr>rel = ''status/git/main'', files = [''estimates.json''], estimates = Some 7\<rparr>,
      \<lparr>rel = ''status/git/pr'', files = [''estimates.json''], estimates = Some 8\<rparr>]"
  have lb: "find_baselines ?walk (base ?a) = Inr [(''status/git'', 7)]" by code_simp
  have lp: "find_baselines ?walk (pr ?a) = Inr [(''status/git'', 8)]" by code_simp
  have nb: "[(''status/git'', 7::rat)] \<noteq> []" and np: "[(''status/git'', 8::rat)] \<noteq> []"
    by simp_all
  have g: "\<not> is_gitr_bench ''status/git''" by code_simp
  then have f: "\<forall>k\<in>fst ` set [(''status/git'', 7::rat)] \<union> fst ` set [(''status/git'', 8::rat)].
      \<not> is_gitr_bench k"
    by simp
  have m: "main ?a ?walk = report 5 []"
    using lb lp g by (simp add: main_def compare_def all_keys_def)
  from main_no_gitr_benchmark [OF lb lp nb np f] m
  have "ending (report 5 []) = Finished \<and>
    map_of (written (report 5 [])) ''bench-results.json'' =
      Some (JsonFile \<lparr>doc_has_regression = False, doc_threshold = 5, doc_total = 0,
                       doc_regressions = 0, doc_improvements = 0, doc_results = []\<rparr>)"
    by simp
  with m show ?thesis by (rule conjI)
qed

section \<open>Reporter: the sign of a percentage change\<close>

text \<open>The full table puts \<open>+\<close> before a positive change and nothing before the others.\<close>

lemma change_str_sign:
  "pct_change r = Some v \<Longrightarrow>
     change_str r = (if 0 < v then ''+'' else []) @ float_repr v @ ''%''"
  by (simp add: change_str_def)

lemma round_half_even_negative: "y < 0 \<Longrightarrow> round_half_even y \<le> 0"
proof -
  assume "y < 0"
  then have "\<lfloor>y\<rfloor> < 0" by linarith
  then show ?thesis
    by (simp add: round_half_even_def Let_def)
qed

lemma py_round_2_negative: "x < 0 \<Longrightarrow> py_round x 2 \<le> 0"
proof -
  assume "x < 0"
  then have "x * 10\<^sup>2 < 0" by (simp add: mult_less_0_iff)
  then have "round_half_even (x * 10\<^sup>2) \<le> 0" by (rule round_half_even_negative)
  then have "(of_int (round_half_even (x * 10\<^sup>2)) :: rat) \<le> 0" by simp
  then show ?thesis
    unfolding py_round_def by (simp add: divide_nonpos_pos)
qed

text \<open>
  An improvement never has a positive change, so the unsigned cell of the improvements
  table is the cell of the full table.
\<close>

lemma improvement_not_positive:
  assumes "compare b p t = Inr rs" and "r \<in> set rs" and "status r = IMPROVEMENT"
  shows "\<exists>v. pct_change r = Some v \<and> v \<le> 0 \<and> change_str r = float_repr v @ ''%''"
proof -
  define key where "key = benchmark r"
  from assms(1,2) have ck: "compare_key b p t key = Inr r"
    unfolding key_def using compare_Inr(2) by blast
  from compare_key_fields [OF ck] assms(3)
  have "map_of b key \<noteq> None \<and> map_of p key \<noteq> None" by simp
  then obtain bv pv where bv: "map_of b key = Some bv" and pv: "map_of p key = Some pv"
    by blast
  have nz: "bv \<noteq> 0"
    using ck bv pv by (auto simp: compare_key_def)
  define pct where "pct = (pv - bv) / bv * 100"
  have "Inr r =
      (Inr \<lparr>benchmark = key, base_ns = Some bv, pr_ns = Some pv,
          pct_change = Some (py_round pct 2),
          status = (if pct > t then REGRESSION else if pct < - t then IMPROVEMENT else OK)\<rparr>
        :: error + result)"
    unfolding ck [symmetric] pct_def using compare_key_both [OF bv pv nz, of t] .
  then have req: "r = \<lparr>benchmark = key, base_ns = Some bv, pr_ns = Some pv,
          pct_change = Some (py_round pct 2),
          status = (if pct > t then REGRESSION else if pct < - t then IMPROVEMENT else OK)\<rparr>"
    by (simp only: sum.inject)
  have r: "pct_change r = Some (py_round pct 2)"
    by (subst req) simp
  have s: "status r = (if pct > t then REGRESSION else if pct < - t then IMPROVEMENT else OK)"
    by (subst req) simp
  from s assms(3) have "pct \<le> t \<and> pct < - t"
    by (auto split: if_splits)
  then have "pct < 0" by linarith
  then have "py_round pct 2 \<le> 0" by (rule py_round_2_negative)
  then show ?thesis
    using r by (simp add: change_str_def)
qed

text \<open>
  Claim C8 at two runs. With threshold 0, base 100000 ns and candidate 100001 ns the
  change 0.001 is a regression and is reported as 0.0: the regressions table and the
  console line print it with a plus sign, the full table without one. With threshold -5,
  base 100 ns and candidate 97 ns the change -3.0 is a regression: the regressions table
  and the console line print a plus sign before the minus sign.
\<close>

theorem regression_sign_evaluation:
  "compare [(''status/gitr'', 100000)] [(''status/gitr'', 100001)] 0 =
     Inr [\<lparr>benchmark = ''status/gitr'', base_ns = Some 100000, pr_ns = Some 100001,
            pct_change = Some 0, status = REGRESSION\<rparr>] \<and>
   md_lines 0 [\<lparr>benchmark = ''status/gitr'', base_ns = Some 100000, pr_ns = Some 100001,
                  pct_change = Some 0, status = REGRESSION\<rparr>] =
     Inr [''## Benchmark Results'',
          ''**Threshold**: 0.0% | **Status**: FAIL'',
          ''### Summary: 1 benchmarks, 1 regressions, 0 improvements'',
          [],
          ''### Regressions'',
          [],
          ''| Benchmark | Base | PR | Change |'',
          ''|-----------|------|-----|--------|'',
          ''| `status/gitr` | 100.00us | 100.00us | +0.0% |'',
          [],
          ''<details>'',
          ''<summary>All Results</summary>'',
          [],
          ''| Benchmark | Base | PR | Change | Status |'',
          ''|-----------|------|-----|--------|--------|'',
          ''| `status/gitr` | 100.00us | 100.00us | 0.0% | REGRESSION |'',
          [],
          ''</details>'',
          []] \<and>
   console_summary 0 [\<lparr>benchmark = ''status/gitr'', base_ns = Some 100000, pr_ns = Some 100001,
                        pct_change = Some 0, status = REGRESSION\<rparr>] =
     [''Compared 1 gitr benchmarks (threshold: 0.0%)'',
      ''  Regressions:  1'',
      ''  Improvements: 0'',
      [],
      ''Regressed benchmarks:'',
      ''  status/gitr: +0.0%''] \<and>
   compare [(''status/gitr'', 100)] [(''status/gitr'', 97)] (- 5) =
     Inr [\<lparr>benchmark = ''status/gitr'', base_ns = Some 100, pr_ns = Some 97,
            pct_change = Some (- 3), status = REGRESSION\<rparr>] \<and>
   regression_row \<lparr>benchmark = ''status/gitr'', base_ns = Some 100, pr_ns = Some 97,
                   pct_change = Some (- 3), status = REGRESSION\<rparr> =
     Inr ''| `status/gitr` | 100ns | 97ns | +-3.0% |'' \<and>
   console_line \<lparr>benchmark = ''status/gitr'', base_ns = Some 100, pr_ns = Some 97,
                 pct_change = Some (- 3), status = REGRESSION\<rparr> =
     ''  status/gitr: +-3.0%'' \<and>
   all_results_row \<lparr>benchmark = ''status/gitr'', base_ns = Some 100, pr_ns = Some 97,
                    pct_change = Some (- 3), status = REGRESSION\<rparr> =
     ''| `status/gitr` | 100ns | 97ns | -3.0% | REGRESSION |''"
  by code_simp

end
